theory Spec2Isabelle
  imports Complex_Main
begin

section \<open>Earthquake payout tools: a shallow embedding of \<open>earthquakes/tools.py\<close>\<close>

text \<open>
  Conventions of the embedding.
  \<^item> In \<open>compute_payouts\<close> and \<open>compute_burning_cost\<close> a Python \<open>float\<close> is a \<open>real\<close>: the
    code compares floats, takes maxima, and forms one sum and one quotient.
  \<^item> In \<open>get_haversine_distance\<close> a \<open>float64\<close> is a finite number or NaN, and the arithmetic
    is a parameter of the model: the rounding applied to the exact result of every
    operation, the sine, cosine and two-argument arctangent of the math library, and the
    constant that converts degrees to radians. Exact arithmetic and IEEE-754 binary64 are
    two instances. Infinities are outside the model.
  \<^item> A Python \<open>int\<close> is an \<open>int\<close>; a \<open>dict\<close> is a map.
  \<^item> A raised exception is the \<open>Inl\<close> branch of a sum.
  \<^item> A pandas \<open>DataFrame\<close> is an object on a heap: the store is a list of frames and a
    reference is an index into it, so that copying a frame and assigning a column in
    place are different things.
  \<^item> Library functions whose result depends on parsing text (\<open>pd.to_datetime\<close>, the
    string-to-float cast of \<open>np.asarray\<close>) are parameters of the model.
\<close>

datatype error = ValueError string | AttributeError string

subsection \<open>Python built-ins used by the source\<close>

text \<open>\<open>d.get(k, default)\<close>.\<close>

definition dict_get :: "('k \<rightharpoonup> 'v) \<Rightarrow> 'k \<Rightarrow> 'v \<Rightarrow> 'v" where
  "dict_get d k dflt = (case d k of None \<Rightarrow> dflt | Some v \<Rightarrow> v)"

text \<open>\<open>range(a, b)\<close>: the integers from \<open>a\<close> up to \<open>b - 1\<close>.\<close>

definition py_range :: "int \<Rightarrow> int \<Rightarrow> int list" where
  "py_range a b = [a..b - 1]"

text \<open>\<open>sum(xs)\<close>: a left-to-right accumulation that starts at 0.\<close>

definition py_sum :: "real list \<Rightarrow> real" where
  "py_sum xs = foldl (+) 0 xs"

text \<open>
  The loop of \<open>max(xs)\<close> after its first item: the running maximum is replaced only by
  a strictly greater item.
\<close>

definition py_max_from :: "real \<Rightarrow> real list \<Rightarrow> real" where
  "py_max_from first rest = foldl (\<lambda>m item. if item > m then item else m) first rest"

subsection \<open>Floating-point arithmetic\<close>

text \<open>A \<open>float64\<close> value is a finite number or NaN.\<close>

datatype float64 = Finite real | NaN

text \<open>
  The arithmetic of the machine: \<open>rnd\<close> rounds the exact result of an addition,
  subtraction, multiplication, division or square root; \<open>f_sin\<close>, \<open>f_cos\<close> and \<open>f_arctan2\<close>
  are the functions of the math library; \<open>deg2rad\<close> is the constant \<open>NPY_PI / 180.0\<close> by
  which \<open>np.radians\<close> multiplies.
\<close>

record arith =
  rnd :: "real \<Rightarrow> real"
  f_sin :: "real \<Rightarrow> real"
  f_cos :: "real \<Rightarrow> real"
  f_arctan2 :: "real \<Rightarrow> real \<Rightarrow> real"
  deg2rad :: real

text \<open>The two-argument arctangent on the reals.\<close>

definition arctan2 :: "real \<Rightarrow> real \<Rightarrow> real" where
  "arctan2 y x =
     (if x > 0 then arctan (y / x)
      else if x < 0 then (if y \<ge> 0 then arctan (y / x) + pi else arctan (y / x) - pi)
      else if y > 0 then pi / 2
      else if y < 0 then - pi / 2
      else 0)"

text \<open>Exact arithmetic: nothing is rounded.\<close>

definition exact_arith :: arith where
  "exact_arith = \<lparr>rnd = (\<lambda>x. x), f_sin = sin, f_cos = cos, f_arctan2 = arctan2, deg2rad = pi / 180\<rparr>"

text \<open>
  IEEE-754 binary64: a result is rounded to the nearest number with a significand of 53
  bits, a tie goes to the even significand. The exponent is not bounded (no overflow,
  no subnormal numbers). The math library rounds correctly, and \<open>deg2rad\<close> is the double
  \<open>0.017453292519943295\<close>.
\<close>

definition pow2 :: "int \<Rightarrow> real" where
  "pow2 k = (if 0 \<le> k then 2 ^ nat k else 1 / 2 ^ nat (- k))"

definition round_even :: "real \<Rightarrow> int" where
  "round_even x =
     (let n = \<lfloor>x\<rfloor>; d = x - of_int n
      in if d < 1 / 2 then n else if 1 / 2 < d then n + 1 else if even n then n else n + 1)"

definition round64 :: "real \<Rightarrow> real" where
  "round64 x =
     (if x = 0 then 0
      else let e = \<lfloor>log 2 \<bar>x\<bar>\<rfloor> - 52
           in of_int (round_even (x / pow2 e)) * pow2 e)"

definition binary64 :: arith where
  "binary64 =
     \<lparr>rnd = round64,
      f_sin = (\<lambda>x. round64 (sin x)),
      f_cos = (\<lambda>x. round64 (cos x)),
      f_arctan2 = (\<lambda>y x. round64 (arctan2 y x)),
      deg2rad = 5030569068109113 / 2 ^ 58\<rparr>"

text \<open>An operation on \<open>float64\<close> values returns NaN as soon as an argument is NaN.\<close>

fun fl1 :: "(real \<Rightarrow> real) \<Rightarrow> float64 \<Rightarrow> float64" where
  "fl1 f (Finite x) = Finite (f x)"
| "fl1 f NaN = NaN"

fun fl2 :: "(real \<Rightarrow> real \<Rightarrow> real) \<Rightarrow> float64 \<Rightarrow> float64 \<Rightarrow> float64" where
  "fl2 f (Finite x) (Finite y) = Finite (f x y)"
| "fl2 f NaN y = NaN"
| "fl2 f x NaN = NaN"

subsection \<open>numpy\<close>

text \<open>
  The elementwise operations of the source. \<open>x ** 2\<close> is the product of \<open>x\<close> with itself,
  and \<open>np.sqrt\<close> returns NaN on a negative argument.
\<close>

definition np_radians :: "arith \<Rightarrow> float64 \<Rightarrow> float64" where
  "np_radians ar = fl1 (\<lambda>x. rnd ar (x * deg2rad ar))"

definition np_sin :: "arith \<Rightarrow> float64 \<Rightarrow> float64" where
  "np_sin ar = fl1 (f_sin ar)"

definition np_cos :: "arith \<Rightarrow> float64 \<Rightarrow> float64" where
  "np_cos ar = fl1 (f_cos ar)"

definition np_add :: "arith \<Rightarrow> float64 \<Rightarrow> float64 \<Rightarrow> float64" where
  "np_add ar = fl2 (\<lambda>x y. rnd ar (x + y))"

definition np_subtract :: "arith \<Rightarrow> float64 \<Rightarrow> float64 \<Rightarrow> float64" where
  "np_subtract ar = fl2 (\<lambda>x y. rnd ar (x - y))"

definition np_multiply :: "arith \<Rightarrow> float64 \<Rightarrow> float64 \<Rightarrow> float64" where
  "np_multiply ar = fl2 (\<lambda>x y. rnd ar (x * y))"

definition np_divide :: "arith \<Rightarrow> float64 \<Rightarrow> float64 \<Rightarrow> float64" where
  "np_divide ar = fl2 (\<lambda>x y. rnd ar (x / y))"

definition np_square :: "arith \<Rightarrow> float64 \<Rightarrow> float64" where
  "np_square ar = fl1 (\<lambda>x. rnd ar (x * x))"

fun np_sqrt :: "arith \<Rightarrow> float64 \<Rightarrow> float64" where
  "np_sqrt ar (Finite x) = (if x < 0 then NaN else Finite (rnd ar (sqrt x)))"
| "np_sqrt ar NaN = NaN"

definition np_arctan2 :: "arith \<Rightarrow> float64 \<Rightarrow> float64 \<Rightarrow> float64" where
  "np_arctan2 ar = fl2 (f_arctan2 ar)"

text \<open>
  An element of a coordinate sequence handed to \<open>np.asarray(..., dtype=np.float64)\<close>: a
  float, an int, a string or \<open>None\<close>. A string is cast by parsing it; \<open>float_of_str\<close>
  stands for that parser and returns \<open>None\<close> on text that is not a number (and NaN on the
  text \<open>nan\<close>). The first string that does not parse raises \<open>ValueError\<close> with the string in
  the message; \<open>None\<close> becomes NaN and nothing is raised.
\<close>

datatype py_value = PyFloat real | PyInt int | PyStr string | PyNone

text \<open>\<open>repr\<close> of a string that has no quote and needs no escape: the text in single quotes.\<close>

definition py_repr :: "string \<Rightarrow> string" where
  "py_repr s = CHR 0x27 # s @ [CHR 0x27]"

fun np_float64 :: "arith \<Rightarrow> (string \<Rightarrow> float64 option) \<Rightarrow> py_value \<Rightarrow> error + float64" where
  "np_float64 ar float_of_str (PyFloat x) = Inr (Finite x)"
| "np_float64 ar float_of_str (PyInt i) = Inr (Finite (rnd ar (of_int i)))"
| "np_float64 ar float_of_str PyNone = Inr NaN"
| "np_float64 ar float_of_str (PyStr s) =
     (case float_of_str s of
        None \<Rightarrow> Inl (ValueError (''could not convert string to float: '' @ py_repr s))
      | Some v \<Rightarrow> Inr v)"

fun np_asarray :: "arith \<Rightarrow> (string \<Rightarrow> float64 option) \<Rightarrow> py_value list \<Rightarrow> error + float64 list" where
  "np_asarray ar float_of_str [] = Inr []"
| "np_asarray ar float_of_str (x # xs) =
     (case np_float64 ar float_of_str x of
        Inl e \<Rightarrow> Inl e
      | Inr v \<Rightarrow>
          (case np_asarray ar float_of_str xs of
             Inl e \<Rightarrow> Inl e
           | Inr vs \<Rightarrow> Inr (v # vs)))"

text \<open>
  A binary operation on two one-dimensional arrays: elementwise on equal lengths, an
  array of length 1 is stretched, and any other pair of lengths raises.
\<close>

definition np_broadcast ::
  "(float64 \<Rightarrow> float64 \<Rightarrow> float64) \<Rightarrow> float64 list \<Rightarrow> float64 list \<Rightarrow> error + float64 list" where
  "np_broadcast f xs ys =
     (if length xs = length ys then Inr (map2 f xs ys)
      else if length xs = 1 then Inr (map (f (hd xs)) ys)
      else if length ys = 1 then Inr (map (\<lambda>x. f x (hd ys)) xs)
      else Inl (ValueError ''operands could not be broadcast together''))"

subsection \<open>\<open>get_haversine_distance\<close>\<close>

definition EARTH_RADIUS :: real where
  "EARTH_RADIUS = 6378"

text \<open>
  Lines 41 to 53 of the source: the array \<open>a\<close>. The expression multiplies
  \<open>cos(lat1) * cos(lat2)\<close> (an array times a scalar) by \<open>sin(dlon / 2) ** 2\<close> and adds the
  product to \<open>sin(dlat / 2) ** 2\<close>; both array operations broadcast.
\<close>

definition haversine_a ::
  "arith \<Rightarrow> (string \<Rightarrow> float64 option) \<Rightarrow> py_value list \<Rightarrow> py_value list \<Rightarrow> real \<Rightarrow> real
     \<Rightarrow> error + float64 list" where
  "haversine_a ar float_of_str lat_series lon_series lat_point lon_point =
     (case np_asarray ar float_of_str lat_series of
        Inl e \<Rightarrow> Inl e
      | Inr lat_arr \<Rightarrow>
     (case np_asarray ar float_of_str lon_series of
        Inl e \<Rightarrow> Inl e
      | Inr lon_arr \<Rightarrow>
        let lat1 = map (np_radians ar) lat_arr;
            lon1 = map (np_radians ar) lon_arr;
            lat2 = np_radians ar (Finite lat_point);
            lon2 = np_radians ar (Finite lon_point);
            dlat = map (np_subtract ar lat2) lat1;
            dlon = map (np_subtract ar lon2) lon1
        in
        (case np_broadcast (np_multiply ar)
                (map (\<lambda>x. np_multiply ar (np_cos ar x) (np_cos ar lat2)) lat1)
                (map (\<lambda>d. np_square ar (np_sin ar (np_divide ar d (Finite 2)))) dlon) of
           Inl e \<Rightarrow> Inl e
         | Inr term2 \<Rightarrow>
             np_broadcast (np_add ar)
               (map (\<lambda>d. np_square ar (np_sin ar (np_divide ar d (Finite 2)))) dlat) term2)))"

text \<open>
  Lines 54 to 57: \<open>c = 2.0 * np.arctan2(np.sqrt(a), np.sqrt(1.0 - a))\<close> and
  \<open>distances = EARTH_RADIUS * c\<close>. The square roots are taken of \<open>a\<close> and \<open>1.0 - a\<close> as they
  were computed.
\<close>

definition get_haversine_distance ::
  "arith \<Rightarrow> (string \<Rightarrow> float64 option) \<Rightarrow> py_value list \<Rightarrow> py_value list \<Rightarrow> real \<Rightarrow> real
     \<Rightarrow> error + float64 list" where
  "get_haversine_distance ar float_of_str lat_series lon_series lat_point lon_point =
     (case haversine_a ar float_of_str lat_series lon_series lat_point lon_point of
        Inl e \<Rightarrow> Inl e
      | Inr a \<Rightarrow>
          let c = map (\<lambda>a. np_multiply ar (Finite 2)
                         (np_arctan2 ar (np_sqrt ar a) (np_sqrt ar (np_subtract ar (Finite 1) a)))) a;
              distances = map (np_multiply ar (Finite EARTH_RADIUS)) c
          in Inr distances)"

subsection \<open>pandas: timestamps, rows, frames and the store\<close>

text \<open>
  A cell of the \<open>time\<close> column is a timestamp, the missing value \<open>NaT\<close>, or an object
  that is not a datetime yet (a string). A row carries the columns the source reads and
  the two columns it derives; \<open>None\<close> in a derived column is a missing value.
\<close>

record timestamp =
  year :: int
  month :: nat
  day :: nat

datatype time_value = Timestamp timestamp | NaT | Raw string

record row =
  time :: time_value
  mag :: real
  depth :: real
  latitude :: real
  longitude :: real
  payout_column :: "real option"
  year_column :: "int option"

type_synonym dataframe = "row list"
type_synonym store = "dataframe list"

text \<open>\<open>df.copy()\<close> allocates a new frame with the same rows.\<close>

definition df_copy :: "store \<Rightarrow> nat \<Rightarrow> store \<times> nat" where
  "df_copy h df = (h @ [h ! df], length h)"

text \<open>
  \<open>pd.api.types.is_datetime64_any_dtype\<close>: the column holds datetimes only. The result of
  \<open>pd.to_datetime(col, errors="coerce")\<close> is a datetime column: each cell is a timestamp
  or \<open>NaT\<close>.
\<close>

fun is_datetime :: "time_value \<Rightarrow> bool" where
  "is_datetime (Timestamp t) = True"
| "is_datetime NaT = True"
| "is_datetime (Raw s) = False"

definition is_datetime64_any_dtype :: "time_value list \<Rightarrow> bool" where
  "is_datetime64_any_dtype col = list_all is_datetime col"

fun datetime_cell :: "timestamp option \<Rightarrow> time_value" where
  "datetime_cell (Some t) = Timestamp t"
| "datetime_cell None = NaT"

text \<open>\<open>df[column] = values\<close> updates the frame in place, row by row.\<close>

definition set_time_column :: "store \<Rightarrow> nat \<Rightarrow> time_value list \<Rightarrow> store" where
  "set_time_column h df col = h[df := map2 (\<lambda>r v. r\<lparr>time := v\<rparr>) (h ! df) col]"

definition set_payout_column :: "store \<Rightarrow> nat \<Rightarrow> real list \<Rightarrow> store" where
  "set_payout_column h df col = h[df := map2 (\<lambda>r v. r\<lparr>payout_column := Some v\<rparr>) (h ! df) col]"

definition set_year_column :: "store \<Rightarrow> nat \<Rightarrow> int option list \<Rightarrow> store" where
  "set_year_column h df col = h[df := map2 (\<lambda>r v. r\<lparr>year_column := v\<rparr>) (h ! df) col]"

text \<open>\<open>df.dropna(subset=["time"])\<close> allocates a new frame without the rows whose time is missing.\<close>

definition dropna_time :: "store \<Rightarrow> nat \<Rightarrow> store \<times> nat" where
  "dropna_time h df = (h @ [filter (\<lambda>r. time r \<noteq> NaT) (h ! df)], length h)"

text \<open>
  \<open>col.dt.year\<close>: the year of each timestamp, a missing value for \<open>NaT\<close>; the accessor
  raises \<open>AttributeError\<close> on a column that is not a datetime column.
\<close>

fun dt_year_cell :: "time_value \<Rightarrow> int option" where
  "dt_year_cell (Timestamp t) = Some (year t)"
| "dt_year_cell NaT = None"
| "dt_year_cell (Raw s) = None"

definition dt_year :: "time_value list \<Rightarrow> error + int option list" where
  "dt_year col =
     (if is_datetime64_any_dtype col then Inr (map dt_year_cell col)
      else Inl (AttributeError ''Can only use .dt accessor with datetimelike values''))"

text \<open>
  \<open>df.groupby("year")["payout"].max().to_dict()\<close>: one key per year, the greatest payout
  of the year's rows; rows with a missing year or payout are skipped.
\<close>

definition groupby_year_payout_max :: "dataframe \<Rightarrow> (int \<rightharpoonup> real)" where
  "groupby_year_payout_max df =
     foldl (\<lambda>acc r.
              case year_column r of
                None \<Rightarrow> acc
              | Some y \<Rightarrow>
                  (case payout_column r of
                     None \<Rightarrow> acc
                   | Some p \<Rightarrow>
                       acc(y \<mapsto> (case acc y of None \<Rightarrow> p
                                     | Some m \<Rightarrow> if p > m then p else m))))
           Map.empty df"

subsection \<open>\<open>compute_payouts\<close>\<close>

text \<open>A payout rule is a dictionary with the keys \<open>radius\<close>, \<open>magnitude\<close> and \<open>payout\<close>.\<close>

record payout_rule =
  radius :: real
  magnitude :: real
  payout :: real

text \<open>The inner function \<open>compute_payout\<close>: \<open>max(payouts) if payouts else 0.0\<close>.\<close>

definition compute_payout :: "payout_rule list \<Rightarrow> row \<Rightarrow> real" where
  "compute_payout payout_rules r =
     (let payouts = map payout
            (filter (\<lambda>rule. depth r \<le> radius rule \<and> mag r \<ge> magnitude rule) payout_rules)
      in case payouts of
           [] \<Rightarrow> 0
         | p # ps \<Rightarrow> py_max_from p ps)"

text \<open>
  \<open>compute_payouts\<close> takes the store and the reference of the caller's frame, and returns
  the dictionary (or the exception raised) together with the store after the call.
  The parameter \<open>to_datetime\<close> stands for \<open>pd.to_datetime(col, errors="coerce")\<close>: it maps
  the cells of a column to timestamps, \<open>None\<close> for a cell it cannot parse. The event's
  distance is the \<open>depth\<close> column, as the docstring of the source says.
\<close>

definition compute_payouts ::
  "(time_value list \<Rightarrow> timestamp option list) \<Rightarrow> store \<Rightarrow> nat \<Rightarrow> payout_rule list
     \<Rightarrow> (error + (int \<rightharpoonup> real)) \<times> store" where
  "compute_payouts to_datetime h earthquake_data payout_rules =
     (let (h1, earthquake_data_copy) = df_copy h earthquake_data;
          h2 = (if \<not> is_datetime64_any_dtype (map time (h1 ! earthquake_data_copy))
                then set_time_column h1 earthquake_data_copy
                       (map datetime_cell (to_datetime (map time (h1 ! earthquake_data_copy))))
                else h1);
          (h3, earthquake_data_copy) = dropna_time h2 earthquake_data_copy;
          h4 = set_payout_column h3 earthquake_data_copy
                 (map (compute_payout payout_rules) (h3 ! earthquake_data_copy))
      in case dt_year (map time (h4 ! earthquake_data_copy)) of
           Inl e \<Rightarrow> (Inl e, h4)
         | Inr years \<Rightarrow>
             let h5 = set_year_column h4 earthquake_data_copy years;
                 yearly_totals = groupby_year_payout_max (h5 ! earthquake_data_copy)
             in (Inr yearly_totals, h5))"

subsection \<open>\<open>compute_burning_cost\<close>\<close>

definition compute_burning_cost :: "(int \<rightharpoonup> real) \<Rightarrow> int \<Rightarrow> int \<Rightarrow> error + real" where
  "compute_burning_cost payouts start_year end_year =
     (if start_year > end_year
      then Inl (ValueError ''start_year must be less than or equal to end_year'')
      else
        let total_years = end_year - start_year + 1 in
        if total_years = 0 then Inr 0
        else
          let total_pct =
                py_sum (map (\<lambda>year. dict_get payouts year 0)
                            (py_range start_year (end_year + 1)))
          in Inr (total_pct / of_int total_years))"

section \<open>The specification's notions\<close>





text \<open>
  A value is castable to a float when Python's \<open>float()\<close> accepts it: a float, an int, a
  string that parses; \<open>float(None)\<close> raises.
\<close>

definition castable_to_float :: "(string \<Rightarrow> float64 option) \<Rightarrow> py_value \<Rightarrow> bool" where
  "castable_to_float float_of_str v =
     (case v of PyStr s \<Rightarrow> float_of_str s \<noteq> None | PyNone \<Rightarrow> False | _ \<Rightarrow> True)"

text \<open>
  The facts about an arithmetic that the distance of a point to itself rests on: 0 and 1
  are not changed by rounding, the sine of 0 is 0 and \<open>atan2(0, 1)\<close> is 0.
\<close>

definition basic_arith :: "arith \<Rightarrow> bool" where
  "basic_arith ar \<longleftrightarrow> rnd ar 0 = 0 \<and> rnd ar 1 = 1 \<and> f_sin ar 0 = 0 \<and> f_arctan2 ar 0 1 = 0"

text \<open>
  The retained events of a frame: the rows whose timestamp is present after the
  conversion of the \<open>time\<close> column, each with its timestamp.
\<close>

fun timestamp_of :: "time_value \<Rightarrow> timestamp option" where
  "timestamp_of (Timestamp t) = Some t"
| "timestamp_of NaT = None"
| "timestamp_of (Raw s) = None"

definition parsed_times :: "(time_value list \<Rightarrow> timestamp option list) \<Rightarrow> dataframe \<Rightarrow> timestamp option list" where
  "parsed_times to_datetime df =
     (if is_datetime64_any_dtype (map time df) then map timestamp_of (map time df)
      else to_datetime (map time df))"

definition retained :: "(time_value list \<Rightarrow> timestamp option list) \<Rightarrow> dataframe \<Rightarrow> (row \<times> timestamp) list" where
  "retained to_datetime df =
     concat (map (\<lambda>(r, v). case v of None \<Rightarrow> [] | Some t \<Rightarrow> [(r, t)])
                 (zip df (parsed_times to_datetime df)))"

text \<open>
  The payout of an event: the greatest payout among the rules the event qualifies for
  (distance within the radius and magnitude at least the threshold), 0 when there is
  none.
\<close>

definition qualifying :: "payout_rule list \<Rightarrow> row \<Rightarrow> payout_rule list" where
  "qualifying rules r = filter (\<lambda>rule. depth r \<le> radius rule \<and> mag r \<ge> magnitude rule) rules"

definition event_payout :: "payout_rule list \<Rightarrow> row \<Rightarrow> real" where
  "event_payout rules r =
     (if qualifying rules r = [] then 0 else Max (payout ` set (qualifying rules r)))"

text \<open>The yearly aggregate: for each year, the greatest payout of its retained events.\<close>

definition yearly_max ::
  "(time_value list \<Rightarrow> timestamp option list) \<Rightarrow> payout_rule list \<Rightarrow> dataframe
     \<Rightarrow> (int \<rightharpoonup> real)" where
  "yearly_max to_datetime rules df y =
     (let ps = map (\<lambda>(r, t). event_payout rules r)
                   (filter (\<lambda>(r, t). year t = y) (retained to_datetime df))
      in if ps = [] then None else Some (Max (set ps)))"

text \<open>
  The two frames the call allocates: the copy with its \<open>time\<close> column converted, and
  the working copy with the derived columns.
\<close>

definition coerced_copy :: "(time_value list \<Rightarrow> timestamp option list) \<Rightarrow> dataframe \<Rightarrow> dataframe" where
  "coerced_copy to_datetime df =
     map (\<lambda>(r, v). r\<lparr>time := datetime_cell v\<rparr>) (zip df (parsed_times to_datetime df))"

definition working_copy :: "(time_value list \<Rightarrow> timestamp option list) \<Rightarrow> payout_rule list \<Rightarrow> dataframe \<Rightarrow> dataframe" where
  "working_copy to_datetime rules df =
     map (\<lambda>(r, t). r\<lparr>time := Timestamp t, payout_column := Some (event_payout rules r),
                        year_column := Some (year t)\<rparr>)
         (retained to_datetime df)"

section \<open>Properties\<close>

subsection \<open>Built-ins\<close>

lemma foldl_add_start: "foldl (+) (a::real) xs = a + sum_list xs"
  by (induction xs arbitrary: a) (simp_all add: add.assoc)

lemma py_sum_sum_list: "py_sum xs = sum_list xs"
  by (simp add: py_sum_def foldl_add_start)

lemma py_sum_range:
  "py_sum (map f (py_range a (b + 1))) = (\<Sum>y = a..b. f y)"
proof -
  have "sum_list (map f [a..b]) = sum f (set [a..b])"
    by (rule sum_set_upto_conv_sum_list_int [symmetric])
  then show ?thesis
    by (simp add: py_sum_sum_list py_range_def)
qed

subsection \<open>Burning cost\<close>

text \<open>
  Claim C3. For a range with \<open>start_year \<le> end_year\<close>, \<open>compute_burning_cost\<close> returns the
  sum, over every year of the inclusive range, of the mapping's value at that year
  (0 for an absent year), divided by \<open>end_year - start_year + 1\<close>.
\<close>

theorem compute_burning_cost_mean:
  assumes "start_year \<le> end_year"
  shows "compute_burning_cost payouts start_year end_year =
           Inr ((\<Sum>y = start_year..end_year. dict_get payouts y 0)
                / of_int (end_year - start_year + 1))"
proof -
  from assms have "end_year - start_year + 1 \<noteq> 0" by simp
  with assms show ?thesis
    by (simp add: compute_burning_cost_def Let_def py_sum_range)
qed

theorem compute_burning_cost_mean_witness:
  "(2020::int) \<le> 2022 \<and>
   compute_burning_cost [2020 \<mapsto> 10, 2022 \<mapsto> 30] 2020 2022 = Inr ((10 + 0 + 30) / 3)"
proof -
  have s: "{2020..2022::int} = {2020, 2021, 2022}" by auto
  show ?thesis
    using compute_burning_cost_mean [of 2020 2022 "[2020 \<mapsto> 10, 2022 \<mapsto> 30]"]
    by (simp add: s dict_get_def)
qed

text \<open>The empty mapping over the one-year range 2000 to 2000 gives 0.\<close>

lemma compute_burning_cost_empty: "compute_burning_cost Map.empty 2000 2000 = Inr 0"
  by (simp add: compute_burning_cost_def py_sum_def py_range_def dict_get_def)

text \<open>
  Claim C6. \<open>compute_burning_cost\<close> raises exactly when \<open>start_year > end_year\<close>, and what it
  raises is the \<open>ValueError\<close> of the range check; the result is then the exception alone,
  with no value beside it. When \<open>start_year \<le> end_year\<close> it returns a value.
\<close>

theorem compute_burning_cost_raises_iff:
  "((\<exists>e. compute_burning_cost payouts start_year end_year = Inl e) \<longleftrightarrow> start_year > end_year)
   \<and> ((compute_burning_cost payouts start_year end_year =
         Inl (ValueError ''start_year must be less than or equal to end_year''))
        \<longleftrightarrow> start_year > end_year)
   \<and> ((\<exists>v. compute_burning_cost payouts start_year end_year = Inr v)
        \<longleftrightarrow> start_year \<le> end_year)"
  by (auto simp add: compute_burning_cost_def Let_def)

theorem compute_burning_cost_raises_iff_witness:
  "compute_burning_cost [2020 \<mapsto> 10] 2021 2020 =
     Inl (ValueError ''start_year must be less than or equal to end_year'')
   \<and> (\<exists>v. compute_burning_cost [2020 \<mapsto> 10] 2020 2020 = Inr v)"
  using compute_burning_cost_raises_iff [of "[2020 \<mapsto> 10]" 2021 2020]
        compute_burning_cost_raises_iff [of "[2020 \<mapsto> 10]" 2020 2020]
  by simp

subsection \<open>Haversine distance: the shape of the result\<close>








subsection \<open>Haversine distance: exact arithmetic\<close>









subsection \<open>Haversine distance: a point and itself\<close>





lemma basic_arith_exact: "basic_arith exact_arith"
  by (simp add: basic_arith_def exact_arith_def arctan2_def)

subsection \<open>Rounding to binary64\<close>














subsection \<open>Bounds on sine and cosine from their Taylor polynomials\<close>










subsection \<open>The antipodal pair (8, 121) and (-8, -59) in binary64\<close>

























subsection \<open>Haversine distance: the claims\<close>







subsection \<open>Haversine distance: values that cannot be cast\<close>

lemma np_asarray_bad_string:
  assumes "\<exists>s. PyStr s \<in> set xs \<and> float_of_str s = None"
  shows "\<exists>s. PyStr s \<in> set xs \<and> float_of_str s = None
           \<and> np_asarray ar float_of_str xs
               = Inl (ValueError (''could not convert string to float: '' @ py_repr s))"
  using assms
proof (induction xs)
  case Nil
  then show ?case by simp
next
  case (Cons x xs)
  show ?case
  proof (cases "np_float64 ar float_of_str x")
    case (Inl e)
    then obtain s where "x = PyStr s" "float_of_str s = None"
      "e = ValueError (''could not convert string to float: '' @ py_repr s)"
      by (cases x) (auto split: option.splits)
    with Inl show ?thesis by auto
  next
    case (Inr v)
    with Cons.prems have "\<exists>s. PyStr s \<in> set xs \<and> float_of_str s = None"
      by (cases x) (auto split: option.splits)
    from Cons.IH [OF this] Inr show ?thesis by auto
  qed
qed

lemma np_asarray_error:
  "np_asarray ar float_of_str xs = Inl e \<Longrightarrow>
   \<exists>s. PyStr s \<in> set xs \<and> float_of_str s = None
       \<and> e = ValueError (''could not convert string to float: '' @ py_repr s)"
proof (induction xs)
  case Nil
  then show ?case by simp
next
  case (Cons x xs)
  show ?case
  proof (cases "np_float64 ar float_of_str x")
    case (Inl e')
    then obtain s where "x = PyStr s" "float_of_str s = None"
      "e' = ValueError (''could not convert string to float: '' @ py_repr s)"
      by (cases x) (auto split: option.splits)
    with Inl Cons.prems show ?thesis by auto
  next
    case (Inr v)
    with Cons.prems have "np_asarray ar float_of_str xs = Inl e"
      by (auto split: sum.splits)
    from Cons.IH [OF this] show ?thesis by auto
  qed
qed

lemma get_haversine_distance_bad_string:
  assumes "\<exists>s. PyStr s \<in> set lat_series \<union> set lon_series \<and> float_of_str s = None"
  shows "\<exists>s. PyStr s \<in> set lat_series \<union> set lon_series \<and> float_of_str s = None
           \<and> get_haversine_distance ar float_of_str lat_series lon_series lat_point lon_point
               = Inl (ValueError (''could not convert string to float: '' @ py_repr s))"
proof (cases "np_asarray ar float_of_str lat_series")
  case (Inl e)
  from np_asarray_error [OF Inl] Inl show ?thesis
    by (auto simp: get_haversine_distance_def haversine_a_def)
next
  case (Inr lat_arr)
  have "\<not> (\<exists>s. PyStr s \<in> set lat_series \<and> float_of_str s = None)"
  proof
    assume "\<exists>s. PyStr s \<in> set lat_series \<and> float_of_str s = None"
    from np_asarray_bad_string [OF this, of ar] Inr show False by auto
  qed
  with assms have "\<exists>s. PyStr s \<in> set lon_series \<and> float_of_str s = None" by auto
  from np_asarray_bad_string [OF this, of ar] Inr show ?thesis
    by (auto simp: get_haversine_distance_def haversine_a_def)
qed

lemma get_haversine_distance_cast_error:
  assumes "get_haversine_distance ar float_of_str lat_series lon_series lat_point lon_point
             = Inl (ValueError (''could not convert string to float: '' @ t))"
  shows "\<exists>s. PyStr s \<in> set lat_series \<union> set lon_series \<and> float_of_str s = None"
proof (cases "np_asarray ar float_of_str lat_series")
  case (Inl e)
  from np_asarray_error [OF Inl] show ?thesis by auto
next
  case lat: (Inr lat_arr)
  show ?thesis
  proof (cases "np_asarray ar float_of_str lon_series")
    case (Inl e)
    from np_asarray_error [OF Inl] show ?thesis by auto
  next
    case lon: (Inr lon_arr)
    from assms lat lon have False
      by (auto simp: get_haversine_distance_def haversine_a_def np_broadcast_def Let_def
          split: sum.splits if_splits)
    then show ?thesis ..
  qed
qed

text \<open>
  Claim C7, as amended. \<open>get_haversine_distance\<close> raises the \<open>ValueError\<close> of the cast
  exactly when some latitude or longitude is a string that is not the text of a number,
  and the message then names such a string. No other element raises it.
\<close>

theorem get_haversine_distance_not_castable:
  "((\<exists>t. get_haversine_distance ar float_of_str lat_series lon_series lat_point lon_point
            = Inl (ValueError (''could not convert string to float: '' @ t)))
      \<longleftrightarrow> (\<exists>s. PyStr s \<in> set lat_series \<union> set lon_series \<and> float_of_str s = None))
   \<and> ((\<exists>s. PyStr s \<in> set lat_series \<union> set lon_series \<and> float_of_str s = None)
      \<longrightarrow> (\<exists>s. PyStr s \<in> set lat_series \<union> set lon_series \<and> float_of_str s = None
             \<and> get_haversine_distance ar float_of_str lat_series lon_series lat_point lon_point
                 = Inl (ValueError (''could not convert string to float: '' @ py_repr s))))"
  using get_haversine_distance_cast_error [of ar float_of_str lat_series lon_series lat_point lon_point]
        get_haversine_distance_bad_string [of lat_series lon_series float_of_str ar lat_point lon_point]
  by blast

theorem get_haversine_distance_not_castable_witness:
  "get_haversine_distance binary64 (\<lambda>s. None) [PyStr ''a'', PyStr ''b''] [PyStr ''c'', PyStr ''d''] 0 0
     = Inl (ValueError (''could not convert string to float: '' @ py_repr ''a''))"
proof -
  have "\<exists>s. PyStr s \<in> set [PyStr ''a'', PyStr ''b''] \<union> set [PyStr ''c'', PyStr ''d'']
           \<and> (\<lambda>s. None :: float64 option) s = None"
    by auto
  with get_haversine_distance_not_castable
         [of binary64 "\<lambda>s. None" "[PyStr ''a'', PyStr ''b'']" "[PyStr ''c'', PyStr ''d'']" 0 0]
  obtain s where "get_haversine_distance binary64 (\<lambda>s. None) [PyStr ''a'', PyStr ''b'']
       [PyStr ''c'', PyStr ''d''] 0 0
     = Inl (ValueError (''could not convert string to float: '' @ py_repr s))"
    by blast
  moreover have "get_haversine_distance binary64 (\<lambda>s. None) [PyStr ''a'', PyStr ''b'']
       [PyStr ''c'', PyStr ''d''] 0 0
     = Inl (ValueError (''could not convert string to float: '' @ py_repr ''a''))"
    by (simp add: get_haversine_distance_def haversine_a_def)
  ultimately show ?thesis by simp
qed

text \<open>
  As stated the claim fails for \<open>None\<close>, which \<open>float()\<close> rejects: \<open>np.asarray\<close> turns it
  into NaN and nothing is raised.
\<close>

theorem get_haversine_distance_not_castable_counterexample:
  "\<not> castable_to_float (\<lambda>s. None) PyNone
   \<and> get_haversine_distance exact_arith (\<lambda>s. None) [PyNone] [PyFloat 0] 0 0 = Inr [NaN]"
  by (simp add: castable_to_float_def get_haversine_distance_def haversine_a_def np_broadcast_def
      np_radians_def np_subtract_def np_multiply_def np_cos_def np_sin_def np_divide_def
      np_square_def np_add_def np_arctan2_def Let_def)

subsection \<open>Payouts\<close>

lemma py_max_from_Max: "py_max_from x xs = Max (set (x # xs))"
proof (induction xs arbitrary: x)
  case Nil
  then show ?case by (simp add: py_max_from_def)
next
  case (Cons y ys)
  have "py_max_from x (y # ys) = py_max_from (if y > x then y else x) ys"
    by (simp add: py_max_from_def)
  also have "\<dots> = Max (set ((if y > x then y else x) # ys))"
    by (rule Cons.IH)
  also have "\<dots> = Max (set (x # y # ys))"
    by (cases ys) (auto simp: max_def)
  finally show ?case .
qed

lemma compute_payout_event_payout: "compute_payout rules r = event_payout rules r"
proof (cases "qualifying rules r")
  case Nil
  then show ?thesis by (simp add: compute_payout_def event_payout_def qualifying_def)
next
  case (Cons q qs)
  then show ?thesis
    by (simp add: compute_payout_def event_payout_def qualifying_def py_max_from_Max)
qed


lemma map2_map_same: "map2 f xs (map g xs) = map (\<lambda>x. f x (g x)) xs"
  by (induction xs) simp_all

lemma map2_map_map_same: "map2 f (map g xs) (map k xs) = map (\<lambda>x. f (g x) (k x)) xs"
  by (induction xs) simp_all

lemma datetime_cell_timestamp_of: "is_datetime v \<Longrightarrow> datetime_cell (timestamp_of v) = v"
  by (cases v) simp_all

lemma coerced_copy_datetime:
  assumes "is_datetime64_any_dtype (map time df)"
  shows "coerced_copy to_datetime df = df"
proof -
  have "map (\<lambda>r. r\<lparr>time := datetime_cell (timestamp_of (time r))\<rparr>) df = map (\<lambda>r. r) df"
    using assms
    by (intro map_cong refl)
       (simp add: is_datetime64_any_dtype_def list_all_iff datetime_cell_timestamp_of)
  then show ?thesis
    using assms by (simp add: coerced_copy_def parsed_times_def map2_map_same)
qed

lemma coerced_copy_object:
  assumes "\<not> is_datetime64_any_dtype (map time df)"
  shows "map2 (\<lambda>r v. r\<lparr>time := v\<rparr>) df (map datetime_cell (to_datetime (map time df)))
           = coerced_copy to_datetime df"
  using assms by (simp add: coerced_copy_def parsed_times_def zip_map2 case_prod_beta)

lemma datetime_cell_eq_NaT [simp]: "datetime_cell v = NaT \<longleftrightarrow> v = None"
  by (cases v) simp_all

lemma nth_append_second: "(h @ [a, b]) ! Suc (length h) = b"
  by (simp add: nth_append)

lemma update_append_second: "(h @ [a, b])[Suc (length h) := c] = h @ [a, c]"
  by (simp add: list_update_append)

lemma dropna_cells:
  "filter (\<lambda>r. time r \<noteq> NaT) (map (\<lambda>(r, v). r\<lparr>time := datetime_cell v\<rparr>) zs)
     = map (\<lambda>(r, t). r\<lparr>time := Timestamp t\<rparr>)
           (concat (map (\<lambda>(r, v). case v of None \<Rightarrow> [] | Some t \<Rightarrow> [(r, t)]) zs))"
  by (induction zs) (auto split: option.splits)

lemma dropna_coerced_copy:
  "filter (\<lambda>r. time r \<noteq> NaT) (coerced_copy to_datetime df)
     = map (\<lambda>(r, t). r\<lparr>time := Timestamp t\<rparr>) (retained to_datetime df)"
  by (simp add: coerced_copy_def retained_def dropna_cells)

lemma event_payout_time_update [simp]:
  "event_payout rules (r\<lparr>time := v\<rparr>) = event_payout rules r"
  by (simp add: event_payout_def qualifying_def)

lemma compute_payouts_run:
  "compute_payouts to_datetime h earthquake_data rules =
           (Inr (groupby_year_payout_max (working_copy to_datetime rules (h ! earthquake_data))),
            h @ [coerced_copy to_datetime (h ! earthquake_data),
                 working_copy to_datetime rules (h ! earthquake_data)])"
proof -
  let ?df = "h ! earthquake_data"
  let ?kept = "map (\<lambda>(r, t). r\<lparr>time := Timestamp t\<rparr>) (retained to_datetime ?df)"
  let ?paid = "map (\<lambda>r. r\<lparr>payout_column := Some (compute_payout rules r)\<rparr>) ?kept"
  have h2: "\<not> is_datetime64_any_dtype (map time ?df) \<Longrightarrow>
             set_time_column (h @ [?df]) (length h)
                    (map datetime_cell (to_datetime (map time ?df)))
             = h @ [coerced_copy to_datetime ?df]"
    by (simp add: set_time_column_def coerced_copy_object)
  have h3: "dropna_time (h @ [coerced_copy to_datetime ?df]) (length h)
              = (h @ [coerced_copy to_datetime ?df, ?kept], Suc (length h))"
    by (simp add: dropna_time_def dropna_coerced_copy)
  have h4: "set_payout_column (h @ [coerced_copy to_datetime ?df, ?kept]) (Suc (length h))
              (map (compute_payout rules) ?kept)
            = h @ [coerced_copy to_datetime ?df, ?paid]"
    by (simp only: set_payout_column_def nth_append_second map2_map_same update_append_second)
  have times: "map time ?paid = map (\<lambda>(r, t). Timestamp t) (retained to_datetime ?df)"
    by (simp add: comp_def case_prod_beta)
  have years: "dt_year (map time ?paid) = Inr (map (\<lambda>(r, t). Some (year t)) (retained to_datetime ?df))"
    unfolding times
    by (simp add: dt_year_def is_datetime64_any_dtype_def list_all_iff comp_def case_prod_beta)
  have h5: "set_year_column (h @ [coerced_copy to_datetime ?df, ?paid]) (Suc (length h))
              (map (\<lambda>(r, t). Some (year t)) (retained to_datetime ?df))
            = h @ [coerced_copy to_datetime ?df, working_copy to_datetime rules ?df]"
  proof -
    have "map2 (\<lambda>r v. r\<lparr>year_column := v\<rparr>) ?paid
            (map (\<lambda>(r, t). Some (year t)) (retained to_datetime ?df))
          = working_copy to_datetime rules ?df"
      unfolding map_map map2_map_map_same working_copy_def
      by (simp add: comp_def case_prod_beta compute_payout_event_payout)
    then show ?thesis
      by (simp only: set_year_column_def nth_append_second update_append_second)
  qed
  show ?thesis
  proof (cases "is_datetime64_any_dtype (map time ?df)")
    case True
    then have c: "coerced_copy to_datetime ?df = ?df"
      by (rule coerced_copy_datetime)
    show ?thesis
      by (simp only: compute_payouts_def df_copy_def Let_def prod.case nth_append_length
          True not_True_eq_False if_False h3 [unfolded c] nth_append_second h4 [unfolded c]
          years sum.case h5 [unfolded c] c)
  next
    case False
    show ?thesis
      by (simp only: compute_payouts_def df_copy_def Let_def prod.case nth_append_length
          False not_False_eq_True if_True h2 [OF False] h3 nth_append_second h4
          years sum.case h5)
  qed
qed


lemma groupby_snoc:
  "groupby_year_payout_max (df @ [r]) =
     (let acc = groupby_year_payout_max df in
      case year_column r of
        None \<Rightarrow> acc
      | Some y \<Rightarrow>
          (case payout_column r of
             None \<Rightarrow> acc
           | Some p \<Rightarrow>
               acc(y \<mapsto> (case acc y of None \<Rightarrow> p | Some m \<Rightarrow> if p > m then p else m))))"
  by (simp add: groupby_year_payout_max_def Let_def)

lemma Max_snoc:
  fixes p :: real
  assumes "ps \<noteq> []"
  shows "Max (set (ps @ [p])) = (if p > Max (set ps) then p else Max (set ps))"
proof -
  have "Max (insert p (set ps)) = max p (Max (set ps))"
    using assms by (intro Max_insert) simp_all
  then show ?thesis by (simp add: max_def)
qed

lemma groupby_working_rows:
  "groupby_year_payout_max
     (map (\<lambda>(r, t). r\<lparr>time := Timestamp t, payout_column := Some (f r),
                        year_column := Some (year t)\<rparr>) rs) y
   = (let ps = map (\<lambda>(r, t). f r) (filter (\<lambda>(r, t). year t = y) rs)
      in if ps = [] then None else Some (Max (set ps)))"
proof (induction rs rule: rev_induct)
  case Nil
  then show ?case by (simp add: groupby_year_payout_max_def)
next
  case (snoc x rs)
  let ?g = "\<lambda>(r, t). r\<lparr>time := Timestamp t, payout_column := Some (f r),
                          year_column := Some (year t)\<rparr>"
  obtain r t where x: "x = (r, t)" by (cases x)
  define ps where "ps = map (\<lambda>(r, t). f r) (filter (\<lambda>(r, t). year t = y) rs)"
  have ih: "groupby_year_payout_max (map ?g rs) y = (if ps = [] then None else Some (Max (set ps)))"
    using snoc.IH by (simp only: ps_def Let_def)
  show ?case
  proof (cases "year t = y")
    case False
    then have "groupby_year_payout_max (map ?g (rs @ [x])) y = groupby_year_payout_max (map ?g rs) y"
      using x by (simp add: groupby_snoc Let_def)
    moreover have "map (\<lambda>(r, t). f r) (filter (\<lambda>(r, t). year t = y) (rs @ [x])) = ps"
      using x False by (simp add: ps_def)
    ultimately show ?thesis
      using ih by (simp only: Let_def)
  next
    case True
    then have step: "groupby_year_payout_max (map ?g (rs @ [x])) y
        = Some (case groupby_year_payout_max (map ?g rs) y of
                  None \<Rightarrow> f r | Some m \<Rightarrow> if f r > m then f r else m)"
      using x by (simp add: groupby_snoc Let_def)
    have new: "map (\<lambda>(r, t). f r) (filter (\<lambda>(r, t). year t = y) (rs @ [x])) = ps @ [f r]"
      using x True by (simp add: ps_def)
    have "Some (case (if ps = [] then None else Some (Max (set ps))) of
                  None \<Rightarrow> f r | Some m \<Rightarrow> if f r > m then f r else m)
          = Some (Max (set (ps @ [f r])))"
    proof (cases "ps = []")
      case True
      then show ?thesis by simp
    next
      case False
      then show ?thesis by (simp only: Max_snoc [OF False]) simp
    qed
    then show ?thesis
      unfolding step ih new Let_def by simp
  qed
qed

lemma compute_payouts_yearly:
  "fst (compute_payouts to_datetime h earthquake_data rules)
     = Inr (yearly_max to_datetime rules (h ! earthquake_data))"
  by (simp add: compute_payouts_run working_copy_def groupby_working_rows yearly_max_def
      fun_eq_iff)

lemma compute_payouts_store:
  "snd (compute_payouts to_datetime h earthquake_data rules)
     = h @ [coerced_copy to_datetime (h ! earthquake_data),
            working_copy to_datetime rules (h ! earthquake_data)]"
  by (simp add: compute_payouts_run)

text \<open>
  Claim C1. The payout \<open>compute_payout\<close> gives an event is the greatest payout among the
  rules with \<open>depth \<le> radius\<close> and \<open>mag \<ge> magnitude\<close> (both), and 0 when no rule
  qualifies; the payout column of the working copy holds exactly these values, one per
  retained event and in their order.
\<close>

theorem compute_payouts_event_payout:
  "compute_payout rules e =
     (if qualifying rules e = [] then 0 else Max (payout ` set (qualifying rules e)))
   \<and> map payout_column (snd (compute_payouts to_datetime h earthquake_data rules) ! Suc (length h))
       = map (\<lambda>(r, t). Some (event_payout rules r)) (retained to_datetime (h ! earthquake_data))"
proof -
  have "compute_payout rules e =
     (if qualifying rules e = [] then 0 else Max (payout ` set (qualifying rules e)))"
    by (simp add: compute_payout_event_payout event_payout_def)
  moreover have "map payout_column (working_copy to_datetime rules df)
       = map (\<lambda>(r, t). Some (event_payout rules r)) (retained to_datetime df)" for df
    by (simp add: working_copy_def comp_def case_prod_beta)
  ultimately show ?thesis
    by (simp only: compute_payouts_store nth_append_second) 
qed

theorem compute_payouts_event_payout_witness:
  "compute_payout [\<lparr>radius = 50, magnitude = 5, payout = 10\<rparr>, \<lparr>radius = 100, magnitude = 6, payout = 25\<rparr>]
      \<lparr>time = Timestamp \<lparr>year = 2020, month = 3, day = 14\<rparr>, mag = 5.5, depth = 30,
        latitude = 0, longitude = 0, payout_column = None, year_column = None\<rparr> = 10
   \<and> compute_payout [\<lparr>radius = 50, magnitude = 5, payout = 10\<rparr>, \<lparr>radius = 100, magnitude = 6, payout = 25\<rparr>]
      (\<lparr>time = Timestamp \<lparr>year = 2020, month = 3, day = 14\<rparr>, mag = 5.5, depth = 30,
        latitude = 0, longitude = 0, payout_column = None, year_column = None\<rparr>\<lparr>depth := 200\<rparr>) = 0
   \<and> compute_payout [] (\<lparr>time = Timestamp \<lparr>year = 2020, month = 3, day = 14\<rparr>, mag = 5.5, depth = 30,
        latitude = 0, longitude = 0, payout_column = None, year_column = None\<rparr>) = 0"
  using compute_payouts_event_payout [of "[\<lparr>radius = 50, magnitude = 5, payout = 10\<rparr>, \<lparr>radius = 100, magnitude = 6, payout = 25\<rparr>]" "\<lparr>time = Timestamp \<lparr>year = 2020, month = 3, day = 14\<rparr>, mag = 5.5, depth = 30,
        latitude = 0, longitude = 0, payout_column = None, year_column = None\<rparr>"]
        compute_payouts_event_payout [of "[\<lparr>radius = 50, magnitude = 5, payout = 10\<rparr>, \<lparr>radius = 100, magnitude = 6, payout = 25\<rparr>]" "\<lparr>time = Timestamp \<lparr>year = 2020, month = 3, day = 14\<rparr>, mag = 5.5, depth = 30,
        latitude = 0, longitude = 0, payout_column = None, year_column = None\<rparr>\<lparr>depth := 200\<rparr>"]
        compute_payouts_event_payout [of "[]" "\<lparr>time = Timestamp \<lparr>year = 2020, month = 3, day = 14\<rparr>, mag = 5.5, depth = 30,
        latitude = 0, longitude = 0, payout_column = None, year_column = None\<rparr>"]
  by (simp add: qualifying_def)

text \<open>
  Claim C2. The dictionary \<open>compute_payouts\<close> returns maps each year to the maximum of the
  payouts of that year's retained events (not their sum), and has no key for a year
  without a retained event.
\<close>

theorem compute_payouts_yearly_max:
  "fst (compute_payouts to_datetime h earthquake_data rules)
     = Inr (yearly_max to_datetime rules (h ! earthquake_data))"
  by (rule compute_payouts_yearly)

theorem compute_payouts_yearly_max_witness:
  "\<exists>m. fst (compute_payouts (map timestamp_of)
        [[\<lparr>time = Timestamp \<lparr>year = 2020, month = 3, day = 14\<rparr>, mag = 5.5, depth = 30,
        latitude = 0, longitude = 0, payout_column = None, year_column = None\<rparr>,
          \<lparr>time = Timestamp \<lparr>year = 2020, month = 9, day = 2\<rparr>, mag = 6.5, depth = 80,
        latitude = 0, longitude = 0, payout_column = None, year_column = None\<rparr>]] 0
        [\<lparr>radius = 50, magnitude = 5, payout = 10\<rparr>, \<lparr>radius = 100, magnitude = 6, payout = 25\<rparr>]) = Inr m
     \<and> m 2020 = Some 25 \<and> m 2021 = None"
  using compute_payouts_yearly_max [of "map timestamp_of"
        "[[\<lparr>time = Timestamp \<lparr>year = 2020, month = 3, day = 14\<rparr>, mag = 5.5, depth = 30,
        latitude = 0, longitude = 0, payout_column = None, year_column = None\<rparr>,
          \<lparr>time = Timestamp \<lparr>year = 2020, month = 9, day = 2\<rparr>, mag = 6.5, depth = 80,
        latitude = 0, longitude = 0, payout_column = None, year_column = None\<rparr>]]" 0
        "[\<lparr>radius = 50, magnitude = 5, payout = 10\<rparr>, \<lparr>radius = 100, magnitude = 6, payout = 25\<rparr>]"]
  by (simp add: yearly_max_def retained_def parsed_times_def is_datetime64_any_dtype_def
      event_payout_def qualifying_def)

lemma retained_clean:
  "retained to_datetime' (map (\<lambda>(r, t). r\<lparr>time := Timestamp t\<rparr>) rs)
     = map (\<lambda>(r, t). (r\<lparr>time := Timestamp t\<rparr>, t)) rs"
proof -
  let ?clean = "map (\<lambda>(r, t). r\<lparr>time := Timestamp t\<rparr>) rs"
  have dt: "is_datetime64_any_dtype (map time ?clean)"
    by (simp add: is_datetime64_any_dtype_def list_all_iff case_prod_beta)
  have "concat (map (\<lambda>(r, v). case v of None \<Rightarrow> [] | Some t \<Rightarrow> [(r, t)])
          (zip ?clean (map timestamp_of (map time ?clean))))
        = map (\<lambda>(r, t). (r\<lparr>time := Timestamp t\<rparr>, t)) rs"
    by (induction rs) (simp_all add: case_prod_beta)
  then show ?thesis
    using dt by (simp only: retained_def parsed_times_def if_True)
qed

lemma yearly_max_clean:
  "yearly_max to_datetime' rules
      (map (\<lambda>(r, t). r\<lparr>time := Timestamp t\<rparr>) (retained to_datetime df))
     = yearly_max to_datetime rules df"
proof
  fix y
  have "map (\<lambda>(r, t). event_payout rules r)
          (filter (\<lambda>(r, t). year t = y) (map (\<lambda>(r, t). (r\<lparr>time := Timestamp t\<rparr>, t)) rs))
        = map (\<lambda>(r, t). event_payout rules r) (filter (\<lambda>(r, t). year t = y) rs)" for rs
    by (induction rs) auto
  then show "yearly_max to_datetime' rules
      (map (\<lambda>(r, t). r\<lparr>time := Timestamp t\<rparr>) (retained to_datetime df)) y
     = yearly_max to_datetime rules df y"
    by (simp only: yearly_max_def retained_clean)
qed

lemma dom_yearly_max:
  "dom (yearly_max to_datetime rules df) = (\<lambda>(r, t). year t) ` set (retained to_datetime df)"
proof -
  have "(yearly_max to_datetime rules df y \<noteq> None)
        = (y \<in> (\<lambda>(r, t). year t) ` set (retained to_datetime df))" for y
    by (auto simp add: yearly_max_def Let_def filter_empty_conv)
  then show ?thesis by (auto simp: dom_def)
qed

text \<open>
  Claim C8. \<open>compute_payouts\<close> never raises: it returns a dictionary whose keys are the
  years of the events with a timestamp after conversion. Events whose timestamp is
  missing or does not parse are left out, and the result is the one obtained from the
  batch without them.
\<close>

theorem compute_payouts_drops_missing_time:
  "(\<exists>m. fst (compute_payouts to_datetime h earthquake_data rules) = Inr m
        \<and> dom m = (\<lambda>(r, t). year t) ` set (retained to_datetime (h ! earthquake_data)))
   \<and> fst (compute_payouts to_datetime h earthquake_data rules)
       = fst (compute_payouts to_datetime'
                [map (\<lambda>(r, t). r\<lparr>time := Timestamp t\<rparr>)
                     (retained to_datetime (h ! earthquake_data))] 0 rules)"
  by (simp add: compute_payouts_yearly dom_yearly_max yearly_max_clean)

theorem compute_payouts_drops_missing_time_witness:
  "\<exists>m. fst (compute_payouts (map timestamp_of)
        [[\<lparr>time = Raw ''not a date'', mag = 7, depth = 10,
        latitude = 0, longitude = 0, payout_column = None, year_column = None\<rparr>,
          \<lparr>time = Timestamp \<lparr>year = 2020, month = 9, day = 2\<rparr>, mag = 6.5, depth = 80,
        latitude = 0, longitude = 0, payout_column = None, year_column = None\<rparr>,
          \<lparr>time = NaT, mag = 7, depth = 10,
        latitude = 0, longitude = 0, payout_column = None, year_column = None\<rparr>]] 0
        [\<lparr>radius = 50, magnitude = 5, payout = 10\<rparr>, \<lparr>radius = 100, magnitude = 6, payout = 25\<rparr>]) = Inr m
     \<and> dom m = {2020} \<and> m 2020 = Some 25"
proof -
  let ?h = "[[\<lparr>time = Raw ''not a date'', mag = 7, depth = 10,
        latitude = 0, longitude = 0, payout_column = None, year_column = None\<rparr>,
          \<lparr>time = Timestamp \<lparr>year = 2020, month = 9, day = 2\<rparr>, mag = 6.5, depth = 80,
        latitude = 0, longitude = 0, payout_column = None, year_column = None\<rparr>,
          \<lparr>time = NaT, mag = 7, depth = 10,
        latitude = 0, longitude = 0, payout_column = None, year_column = None\<rparr>]]"
  have "fst (compute_payouts (map timestamp_of) ?h 0 [\<lparr>radius = 50, magnitude = 5, payout = 10\<rparr>, \<lparr>radius = 100, magnitude = 6, payout = 25\<rparr>])
        = fst (compute_payouts (map timestamp_of)
                [map (\<lambda>(r, t). r\<lparr>time := Timestamp t\<rparr>)
                     (retained (map timestamp_of) (?h ! 0))] 0 [\<lparr>radius = 50, magnitude = 5, payout = 10\<rparr>, \<lparr>radius = 100, magnitude = 6, payout = 25\<rparr>])"
    using compute_payouts_drops_missing_time [of "map timestamp_of" ?h 0 "[\<lparr>radius = 50, magnitude = 5, payout = 10\<rparr>, \<lparr>radius = 100, magnitude = 6, payout = 25\<rparr>]" "map timestamp_of"]
    by blast
  then show ?thesis
    by (simp add: retained_def parsed_times_def is_datetime64_any_dtype_def
        compute_payouts_def df_copy_def dropna_time_def
        set_payout_column_def set_year_column_def compute_payout_def py_max_from_def dt_year_def
        groupby_year_payout_max_def Let_def)
qed

text \<open>
  Claim C9. \<open>compute_payouts\<close> leaves every frame of the caller's store as it was, the
  caller's event collection among them: the call only allocates two new frames (the
  copy and the working copy), and the derived columns are written to those.
\<close>

theorem compute_payouts_store_unchanged:
  "take (length h) (snd (compute_payouts to_datetime h earthquake_data rules)) = h
   \<and> length (snd (compute_payouts to_datetime h earthquake_data rules)) = length h + 2
   \<and> (\<forall>df < length h. snd (compute_payouts to_datetime h earthquake_data rules) ! df = h ! df)"
  by (simp add: compute_payouts_store nth_append)

theorem compute_payouts_store_unchanged_witness:
  "snd (compute_payouts (map timestamp_of)
        [[\<lparr>time = Raw ''not a date'', mag = 7, depth = 10,
        latitude = 0, longitude = 0, payout_column = None, year_column = None\<rparr>,
          \<lparr>time = Timestamp \<lparr>year = 2020, month = 9, day = 2\<rparr>, mag = 6.5, depth = 80,
        latitude = 0, longitude = 0, payout_column = None, year_column = None\<rparr>]] 0
        [\<lparr>radius = 50, magnitude = 5, payout = 10\<rparr>, \<lparr>radius = 100, magnitude = 6, payout = 25\<rparr>]) ! 0
   = [\<lparr>time = Raw ''not a date'', mag = 7, depth = 10,
        latitude = 0, longitude = 0, payout_column = None, year_column = None\<rparr>,
      \<lparr>time = Timestamp \<lparr>year = 2020, month = 9, day = 2\<rparr>, mag = 6.5, depth = 80,
        latitude = 0, longitude = 0, payout_column = None, year_column = None\<rparr>]"
  using compute_payouts_store_unchanged [of
        "[[\<lparr>time = Raw ''not a date'', mag = 7, depth = 10,
        latitude = 0, longitude = 0, payout_column = None, year_column = None\<rparr>,
          \<lparr>time = Timestamp \<lparr>year = 2020, month = 9, day = 2\<rparr>, mag = 6.5, depth = 80,
        latitude = 0, longitude = 0, payout_column = None, year_column = None\<rparr>]]" "map timestamp_of" 0
        "[\<lparr>radius = 50, magnitude = 5, payout = 10\<rparr>, \<lparr>radius = 100, magnitude = 6, payout = 25\<rparr>]"]
  by simp

lemma event_payout_mono:
  assumes sub: "set rules1 \<subseteq> set rules2"
    and nonneg: "\<forall>rule\<in>set rules2 - set rules1. 0 \<le> payout rule"
  shows "event_payout rules1 e \<le> event_payout rules2 e"
proof (cases "qualifying rules1 e = []")
  case True
  show ?thesis
  proof (cases "qualifying rules2 e = []")
    case True
    with \<open>qualifying rules1 e = []\<close> show ?thesis by (simp add: event_payout_def)
  next
    case False
    then obtain q where q: "q \<in> set (qualifying rules2 e)"
      by (cases "qualifying rules2 e") auto
    have "q \<notin> set rules1"
    proof
      assume "q \<in> set rules1"
      with q have "q \<in> set (qualifying rules1 e)" by (simp add: qualifying_def)
      with True show False by simp
    qed
    with q nonneg have "0 \<le> payout q" by (simp add: qualifying_def)
    also have "payout q \<le> Max (payout ` set (qualifying rules2 e))"
      using q by (intro Max_ge) simp_all
    finally show ?thesis
      using True False by (simp add: event_payout_def)
  qed
next
  case False
  have "set (qualifying rules1 e) \<subseteq> set (qualifying rules2 e)"
    using sub by (auto simp: qualifying_def)
  then have "Max (payout ` set (qualifying rules1 e)) \<le> Max (payout ` set (qualifying rules2 e))"
    using False by (intro Max_mono) auto
  moreover from False \<open>set (qualifying rules1 e) \<subseteq> set (qualifying rules2 e)\<close>
  have "qualifying rules2 e \<noteq> []" by auto
  ultimately show ?thesis
    using False by (simp add: event_payout_def)
qed

lemma Max_map_mono:
  fixes f g :: "'a \<Rightarrow> real"
  assumes "xs \<noteq> []" and "\<And>x. x \<in> set xs \<Longrightarrow> f x \<le> g x"
  shows "Max (set (map f xs)) \<le> Max (set (map g xs))"
proof -
  have "f x \<le> Max (set (map g xs))" if "x \<in> set xs" for x
  proof -
    have "g x \<le> Max (set (map g xs))" using that by (intro Max_ge) simp_all
    with assms(2) [OF that] show ?thesis by simp
  qed
  then show ?thesis
    using assms(1) by (subst Max_le_iff) auto
qed

lemma yearly_max_mono:
  assumes sub: "set rules1 \<subseteq> set rules2"
    and nonneg: "\<forall>rule\<in>set rules2 - set rules1. 0 \<le> payout rule"
    and "yearly_max to_datetime rules1 df y = Some v1"
    and "yearly_max to_datetime rules2 df y = Some v2"
  shows "v1 \<le> v2"
proof -
  let ?rs = "filter (\<lambda>(r, t). year t = y) (retained to_datetime df)"
  from assms(3) have ne: "?rs \<noteq> []"
    by (auto simp: yearly_max_def Let_def split: if_splits)
  from assms(3) ne have v1: "v1 = Max (set (map (\<lambda>(r, t). event_payout rules1 r) ?rs))"
    by (simp add: yearly_max_def Let_def)
  from assms(4) ne have v2: "v2 = Max (set (map (\<lambda>(r, t). event_payout rules2 r) ?rs))"
    by (simp add: yearly_max_def Let_def)
  show ?thesis
    unfolding v1 v2
    using ne by (intro Max_map_mono) (auto intro: event_payout_mono [OF sub nonneg])
qed

text \<open>
  Claim C10, as amended. For rule sets \<open>rules1 \<subseteq> rules2\<close> in which every rule of \<open>rules2\<close>
  that is not in \<open>rules1\<close> has a payout of at least 0, the results of \<open>compute_payouts\<close> have
  the same year keys and every year's value under \<open>rules2\<close> is at least its value under
  \<open>rules1\<close>.
\<close>

theorem compute_payouts_monotone:
  assumes "set rules1 \<subseteq> set rules2"
    and "\<forall>rule\<in>set rules2 - set rules1. 0 \<le> payout rule"
  shows "\<exists>m1 m2.
           fst (compute_payouts to_datetime h earthquake_data rules1) = Inr m1
         \<and> fst (compute_payouts to_datetime h earthquake_data rules2) = Inr m2
         \<and> dom m1 = dom m2
         \<and> (\<forall>y v1 v2. m1 y = Some v1 \<longrightarrow> m2 y = Some v2 \<longrightarrow> v1 \<le> v2)"
  using yearly_max_mono [OF assms]
  by (simp add: compute_payouts_yearly dom_yearly_max)

theorem compute_payouts_monotone_witness:
  "\<exists>m1 m2.
      fst (compute_payouts (map timestamp_of)
        [[\<lparr>time = Timestamp \<lparr>year = 2020, month = 3, day = 14\<rparr>, mag = 6.5, depth = 30,
          latitude = 0, longitude = 0, payout_column = None, year_column = None\<rparr>]] 0
        [\<lparr>radius = 50, magnitude = 5, payout = 10\<rparr>]) = Inr m1
    \<and> fst (compute_payouts (map timestamp_of)
        [[\<lparr>time = Timestamp \<lparr>year = 2020, month = 3, day = 14\<rparr>, mag = 6.5, depth = 30,
          latitude = 0, longitude = 0, payout_column = None, year_column = None\<rparr>]] 0
        [\<lparr>radius = 50, magnitude = 5, payout = 10\<rparr>, \<lparr>radius = 100, magnitude = 6, payout = 25\<rparr>]) = Inr m2
    \<and> dom m1 = dom m2
    \<and> (\<exists>v1 v2. m1 2020 = Some v1 \<and> m2 2020 = Some v2 \<and> v1 \<le> v2)"
proof -
  let ?h = "[[\<lparr>time = Timestamp \<lparr>year = 2020, month = 3, day = 14\<rparr>, mag = 6.5, depth = 30,
          latitude = 0, longitude = 0, payout_column = None, year_column = None\<rparr>]]"
  let ?rules1 = "[\<lparr>radius = 50, magnitude = 5, payout = 10\<rparr>]"
  let ?rules2 = "[\<lparr>radius = 50, magnitude = 5, payout = 10\<rparr>, \<lparr>radius = 100, magnitude = 6, payout = 25\<rparr>] :: payout_rule list"
  have a: "set ?rules1 \<subseteq> set ?rules2"
    by simp
  have b: "\<forall>rule\<in>set ?rules2 - set ?rules1. 0 \<le> payout rule"
    by simp
  obtain m1 m2 where m:
    "fst (compute_payouts (map timestamp_of) ?h 0 ?rules1) = Inr m1"
    "fst (compute_payouts (map timestamp_of) ?h 0 ?rules2) = Inr m2"
    "dom m1 = dom m2"
    "\<forall>y v1 v2. m1 y = Some v1 \<longrightarrow> m2 y = Some v2 \<longrightarrow> v1 \<le> v2"
    using compute_payouts_monotone [OF a b, of "map timestamp_of" ?h 0] by blast
  have "fst (compute_payouts (map timestamp_of) ?h 0 ?rules1) = Inr [2020 \<mapsto> 10]"
    by (simp add: compute_payouts_def df_copy_def is_datetime64_any_dtype_def dropna_time_def
        set_payout_column_def set_year_column_def compute_payout_def py_max_from_def dt_year_def
        groupby_year_payout_max_def Let_def)
  with m(1) have v1: "m1 2020 = Some 10" by simp
  have "fst (compute_payouts (map timestamp_of) ?h 0 ?rules2) = Inr [2020 \<mapsto> 25]"
    by (simp add: compute_payouts_def df_copy_def is_datetime64_any_dtype_def dropna_time_def
        set_payout_column_def set_year_column_def compute_payout_def py_max_from_def dt_year_def
        groupby_year_payout_max_def Let_def)
  with m(2) have v2: "m2 2020 = Some 25" by simp
  from m(4) v1 v2 have "(10::real) \<le> 25" by blast
  with m(1,2,3) v1 v2 show ?thesis by blast
qed

text \<open>
  Without the condition on the payouts the claim fails: an event that qualifies for no
  rule pays 0, and adding a rule with a negative payout lowers its year's value.
\<close>

theorem compute_payouts_monotone_counterexample:
  "set [] \<subseteq> set [\<lparr>radius = 50, magnitude = 5, payout = - 5\<rparr>]
   \<and> fst (compute_payouts (map timestamp_of)
            [[\<lparr>time = Timestamp \<lparr>year = 2020, month = 3, day = 14\<rparr>, mag = 6, depth = 10,
               latitude = 0, longitude = 0, payout_column = None, year_column = None\<rparr>]] 0
            []) = Inr [2020 \<mapsto> 0]
   \<and> fst (compute_payouts (map timestamp_of)
            [[\<lparr>time = Timestamp \<lparr>year = 2020, month = 3, day = 14\<rparr>, mag = 6, depth = 10,
               latitude = 0, longitude = 0, payout_column = None, year_column = None\<rparr>]] 0
            [\<lparr>radius = 50, magnitude = 5, payout = - 5\<rparr>]) = Inr [2020 \<mapsto> - 5]"
  by (simp add: compute_payouts_def df_copy_def is_datetime64_any_dtype_def dropna_time_def
      set_payout_column_def set_year_column_def compute_payout_def py_max_from_def dt_year_def
      groupby_year_payout_max_def Let_def)

end
